theory Spec2Isabelle
  imports Complex_Main "HOL-Library.Multiset"
begin

section \<open>Python values, exceptions and results\<close>

text \<open>
  The exceptions that the two source files raise, catch or let through. Each carries the
  text that \<open>str(e)\<close> yields. \<open>RequestException\<close> stands for the class
  \<open>requests.exceptions.RequestException\<close> and all of its subclasses (connection failures,
  time-outs, HTTP status errors); \<open>UnknownValueError\<close> and \<open>RequestError\<close> are the two
  classes of the speech-recognition library that \<open>transcribe_audio\<close> handles.
\<close>

datatype exn =
    ValueError string
  | TypeError string
  | AttributeError string
  | RequestException string
  | UnknownValueError string
  | RequestError string
  | OutputParserException string
  | OtherException string

fun str_exn :: "exn \<Rightarrow> string" where
  "str_exn (ValueError m) = m"
| "str_exn (TypeError m) = m"
| "str_exn (AttributeError m) = m"
| "str_exn (RequestException m) = m"
| "str_exn (UnknownValueError m) = m"
| "str_exn (RequestError m) = m"
| "str_exn (OutputParserException m) = m"
| "str_exn (OtherException m) = m"

fun is_RequestException :: "exn \<Rightarrow> bool" where
  "is_RequestException (RequestException m) = True"
| "is_RequestException e = False"

text \<open>A call either raises or returns.\<close>

datatype 'a py = Raise exn | Return 'a

text \<open>
  Inside a \<open>try\<close> block a computation is a sum: \<open>Inl\<close> the exception raised so far,
  \<open>Inr\<close> the value. \<open>try_bind\<close> runs the next statement unless one was raised.
\<close>

definition try_bind :: "exn + 'a \<Rightarrow> ('a \<Rightarrow> exn + 'b) \<Rightarrow> exn + 'b" where
  "try_bind r f = (case r of Inl e \<Rightarrow> Inl e | Inr v \<Rightarrow> f v)"

text \<open>
  A decoded JSON document as the Python objects that \<open>response.json()\<close> and the output
  parser produce: \<open>None\<close>, \<open>bool\<close>, \<open>int\<close>, \<open>float\<close>, \<open>str\<close>, \<open>list\<close> and \<open>dict\<close>.
  A \<open>dict\<close> is the list of its items in insertion order (its keys are distinct).
  Floats are modelled as real numbers.
\<close>

datatype json =
    JNull
  | JBool bool
  | JInt int
  | JFloat real
  | JStr string
  | JArr "json list"
  | JObj "(string \<times> json) list"

fun type_name :: "json \<Rightarrow> string" where
  "type_name JNull = ''NoneType''"
| "type_name (JBool b) = ''bool''"
| "type_name (JInt n) = ''int''"
| "type_name (JFloat r) = ''float''"
| "type_name (JStr s) = ''str''"
| "type_name (JArr xs) = ''list''"
| "type_name (JObj kvs) = ''dict''"

definition quoted :: "string \<Rightarrow> string" where
  "quoted s = CHR 0x27 # s @ [CHR 0x27]"

text \<open>\<open>v.get(k, d)\<close>: only a \<open>dict\<close> has the method.\<close>

definition get_or :: "(string \<times> json) list \<Rightarrow> string \<Rightarrow> json \<Rightarrow> json" where
  "get_or kvs k d = (case map_of kvs k of None \<Rightarrow> d | Some v \<Rightarrow> v)"

fun dict_get :: "json \<Rightarrow> string \<Rightarrow> json \<Rightarrow> exn + json" where
  "dict_get (JObj kvs) k d = Inr (get_or kvs k d)"
| "dict_get v k d =
     Inl (AttributeError (quoted (type_name v) @ '' object has no attribute '' @ quoted ''get''))"

text \<open>The truth value of an object, as \<open>if v:\<close> and \<open>not v\<close> take it.\<close>

fun truthy :: "json \<Rightarrow> bool" where
  "truthy JNull = False"
| "truthy (JBool b) = b"
| "truthy (JInt n) = (n \<noteq> 0)"
| "truthy (JFloat r) = (r \<noteq> 0)"
| "truthy (JStr s) = (s \<noteq> [])"
| "truthy (JArr xs) = (xs \<noteq> [])"
| "truthy (JObj kvs) = (kvs \<noteq> [])"

text \<open>
  \<open>for place in v\<close>: a list yields its elements, a string its characters, a dict its
  keys; anything else is not iterable.
\<close>

fun py_iter :: "json \<Rightarrow> exn + json list" where
  "py_iter (JArr xs) = Inr xs"
| "py_iter (JStr s) = Inr (map (\<lambda>c. JStr [c]) s)"
| "py_iter (JObj kvs) = Inr (map (\<lambda>kv. JStr (fst kv)) kvs)"
| "py_iter v = Inl (TypeError (quoted (type_name v) @ '' object is not iterable''))"

section \<open>The functions of \<open>math\<close> used by the distance computation\<close>

definition radians :: "real \<Rightarrow> real" where
  "radians x = x * (pi / 180)"

text \<open>
  \<open>math.radians\<close> accepts \<open>float\<close>, \<open>int\<close> and \<open>bool\<close> (a subclass of \<open>int\<close>) and
  raises \<open>TypeError\<close> on every other object.
\<close>

fun number_of :: "json \<Rightarrow> real option" where
  "number_of (JFloat r) = Some r"
| "number_of (JInt n) = Some (of_int n)"
| "number_of (JBool b) = Some (if b then 1 else 0)"
| "number_of v = None"

definition py_radians :: "json \<Rightarrow> exn + real" where
  "py_radians v =
     (case number_of v of
        Some x \<Rightarrow> Inr (radians x)
      | None \<Rightarrow> Inl (TypeError (''must be real number, not '' @ type_name v)))"

definition py_sqrt :: "real \<Rightarrow> exn + real" where
  "py_sqrt x = (if x < 0 then Inl (ValueError ''math domain error'') else Inr (sqrt x))"

definition py_asin :: "real \<Rightarrow> exn + real" where
  "py_asin x =
     (if x < - 1 \<or> 1 < x then Inl (ValueError ''math domain error'') else Inr (arcsin x))"

section \<open>\<open>find_nearby_places_google\<close>\<close>

record env =
  GOOGLE_API_KEY :: "string option"
  GOOGLE_MAPS_API_KEY :: "string option"

text \<open>\<open>not KEY\<close> for a value of \<open>os.getenv\<close>: the variable is unset or empty.\<close>

fun key_missing :: "string option \<Rightarrow> bool" where
  "key_missing None = True"
| "key_missing (Some k) = (k = [])"

record places_request =
  req_location :: "real \<times> real"
  req_radius :: int
  req_keyword :: string
  req_key :: string

text \<open>
  What lines 76 to 78 yield: \<open>requests.get\<close>, \<open>raise_for_status\<close> or
  \<open>response.json()\<close> raised, or the decoded body.
\<close>

datatype http_outcome = HttpRaised exn | HttpJson json

record place_row =
  Name :: json
  Address :: json
  Rating :: json
  Distance_km :: real

text \<open>The function returns a data frame (its rows, in order) or an error text.\<close>

datatype places_value = ErrorText string | DataFrame "place_row list"

text \<open>Lines 85 to 88: the distance of the query point to a candidate's coordinates.\<close>

definition distance_to :: "real \<Rightarrow> real \<Rightarrow> json \<Rightarrow> json \<Rightarrow> exn + real" where
  "distance_to latitude longitude lat_v lng_v =
     (let R = 6371; lat1 = radians latitude; lon1 = radians longitude in
      try_bind (py_radians lat_v) (\<lambda>lat2.
      try_bind (py_radians lng_v) (\<lambda>lon2.
        let dLat = lat2 - lat1; dLon = lon2 - lon1;
            a = (sin (dLat / 2))\<^sup>2 + cos lat1 * cos lat2 * (sin (dLon / 2))\<^sup>2
        in try_bind (py_sqrt a) (\<lambda>root.
           try_bind (py_asin root) (\<lambda>angle.
             Inr (2 * R * angle))))))"

text \<open>Line 83: \<open>place.get('geometry', {}).get('location', {})\<close>.\<close>

definition place_location :: "json \<Rightarrow> exn + json" where
  "place_location place =
     try_bind (dict_get place ''geometry'' (JObj [])) (\<lambda>geometry.
       dict_get geometry ''location'' (JObj []))"

text \<open>Lines 83 to 95: the body of the loop for one candidate.\<close>

definition place_to_row :: "real \<Rightarrow> real \<Rightarrow> json \<Rightarrow> exn + place_row" where
  "place_to_row latitude longitude place =
     try_bind (place_location place) (\<lambda>loc.
     try_bind (dict_get loc ''lat'' (JInt 0)) (\<lambda>lat_v.
     try_bind (dict_get loc ''lng'' (JInt 0)) (\<lambda>lng_v.
     try_bind (distance_to latitude longitude lat_v lng_v) (\<lambda>dist.
     try_bind (dict_get place ''name'' (JStr ''N/A'')) (\<lambda>name.
     try_bind (dict_get place ''vicinity'' (JStr ''N/A'')) (\<lambda>vicinity.
     try_bind (dict_get place ''rating'' (JStr ''N/A'')) (\<lambda>rating.
       Inr \<lparr>Name = name, Address = vicinity, Rating = rating, Distance_km = dist\<rparr>)))))))"

text \<open>The loop of line 82: rows are appended in order; the first exception ends it.\<close>

fun collect_places :: "real \<Rightarrow> real \<Rightarrow> json list \<Rightarrow> place_row list \<Rightarrow> exn + place_row list" where
  "collect_places latitude longitude [] places = Inr places"
| "collect_places latitude longitude (place # rest) places =
     (case place_to_row latitude longitude place of
        Inl e \<Rightarrow> Inl e
      | Inr row \<Rightarrow> collect_places latitude longitude rest (places @ [row]))"

text \<open>
  The \<open>try\<close> block, lines 76 to 98. \<open>sort_values\<close> is the library call
  \<open>pd.DataFrame(places).sort_values('Distance (km)')\<close>, a parameter of the model.
\<close>

definition nearby_try ::
  "(place_row list \<Rightarrow> place_row list) \<Rightarrow> (places_request \<Rightarrow> http_outcome) \<Rightarrow>
   places_request \<Rightarrow> exn + places_value" where
  "nearby_try sort_values http params =
     (case http params of
        HttpRaised e \<Rightarrow> Inl e
      | HttpJson data \<Rightarrow>
          try_bind (dict_get data ''results'' JNull) (\<lambda>results.
          try_bind (if truthy results
                    then try_bind (py_iter results) (\<lambda>items.
                           collect_places (fst (req_location params)) (snd (req_location params))
                             items [])
                    else Inr []) (\<lambda>places.
            if places = [] then Inr (DataFrame [])
            else Inr (DataFrame (sort_values places)))))"

definition find_nearby_places_google ::
  "(place_row list \<Rightarrow> place_row list) \<Rightarrow> env \<Rightarrow> (places_request \<Rightarrow> http_outcome) \<Rightarrow>
   real \<Rightarrow> real \<Rightarrow> string \<Rightarrow> int \<Rightarrow> places_value py" where
  "find_nearby_places_google sort_values ev http latitude longitude query radius =
     (case GOOGLE_MAPS_API_KEY ev of
        None \<Rightarrow> Raise (ValueError ''GOOGLE_MAPS_API_KEY not found!'')
      | Some k \<Rightarrow>
          if k = [] then Raise (ValueError ''GOOGLE_MAPS_API_KEY not found!'')
          else
            (case nearby_try sort_values http
                    \<lparr>req_location = (latitude, longitude), req_radius = radius,
                     req_keyword = query, req_key = k\<rparr> of
               Inr v \<Rightarrow> Return v
             | Inl e \<Rightarrow>
                 if is_RequestException e
                 then Return (ErrorText (''Error connecting to Google Maps API: '' @ str_exn e))
                 else Return (ErrorText
                        (''An error occurred while parsing Google Maps data: '' @ str_exn e))))"

section \<open>\<open>TriageResponse\<close> and \<open>get_ai_triage_analysis\<close>\<close>

record TriageResponse =
  urgency :: string
  possible_causes :: "string list"
  suggested_specialty :: string
  self_care_tips :: "string list option"
  recommended_tests :: "string list option"
  explanation :: string

text \<open>
  The validation that the class declaration asks of the library for a decoded object:
  a field annotated \<open>str\<close> takes a string, \<open>List[str]\<close> a list of strings,
  \<open>Optional[List[str]]\<close> a list of strings or \<open>None\<close>. Every field is declared with
  \<open>Field(description=...)\<close> and no default, so every key has to be present; keys that
  the class does not declare are ignored. No field carries a validator, an enumeration
  or a \<open>Literal\<close> type.
\<close>

fun as_str :: "json \<Rightarrow> string option" where
  "as_str (JStr s) = Some s"
| "as_str v = None"

fun strs_of :: "json list \<Rightarrow> string list option" where
  "strs_of [] = Some []"
| "strs_of (JStr s # rest) = map_option ((#) s) (strs_of rest)"
| "strs_of (v # rest) = None"

fun as_str_list :: "json \<Rightarrow> string list option" where
  "as_str_list (JArr xs) = strs_of xs"
| "as_str_list v = None"

fun as_opt_str_list :: "json \<Rightarrow> string list option option" where
  "as_opt_str_list JNull = Some None"
| "as_opt_str_list (JArr xs) = map_option Some (strs_of xs)"
| "as_opt_str_list v = None"

text \<open>
  One field of the object. The exception is the one the output parser raises; its text
  names the field (the library's full wording is not reproduced).
\<close>

definition field :: "(string \<times> json) list \<Rightarrow> string \<Rightarrow> (json \<Rightarrow> 'a option) \<Rightarrow> exn + 'a" where
  "field kvs k conv =
     (case map_of kvs k of
        None \<Rightarrow> Inl (OutputParserException (''Failed to parse TriageResponse: '' @ k @ '': Field required''))
      | Some v \<Rightarrow>
          (case conv v of
             None \<Rightarrow> Inl (OutputParserException (''Failed to parse TriageResponse: '' @ k @ '': Input should be valid''))
           | Some x \<Rightarrow> Inr x))"

fun parse_TriageResponse :: "json \<Rightarrow> exn + TriageResponse" where
  "parse_TriageResponse (JObj kvs) =
     try_bind (field kvs ''urgency'' as_str) (\<lambda>u.
     try_bind (field kvs ''possible_causes'' as_str_list) (\<lambda>pc.
     try_bind (field kvs ''suggested_specialty'' as_str) (\<lambda>sp.
     try_bind (field kvs ''self_care_tips'' as_opt_str_list) (\<lambda>tips.
     try_bind (field kvs ''recommended_tests'' as_opt_str_list) (\<lambda>tests.
     try_bind (field kvs ''explanation'' as_str) (\<lambda>ex.
       Inr \<lparr>urgency = u, possible_causes = pc, suggested_specialty = sp,
            self_care_tips = tips, recommended_tests = tests, explanation = ex\<rparr>))))))"
| "parse_TriageResponse v =
     Inl (OutputParserException (''Failed to parse TriageResponse: Input should be an object''))"

text \<open>
  What the model call of the chain yields: the call raised, the completion is not JSON
  text, or the completion decoded.
\<close>

datatype llm_outcome = LlmRaised exn | LlmNotJson string | LlmJson json

text \<open>The prompt of lines 34 to 44, with the parser's format instructions filled in.\<close>

definition render_prompt :: "string \<Rightarrow> string \<Rightarrow> string \<Rightarrow> string" where
  "render_prompt format_instructions patient_text language =
     [CHR 0x0A] @ ''    You are '' @ quoted ''VoiceDoc'' @ '', a precise medical triage AI. Analyze the patient''
     @ [CHR 0x27] @ ''s statement in '' @ language @ '' and output a valid JSON object in English.''
     @ [CHR 0x0A] @ ''    **CRITICAL INSTRUCTION: Your output MUST be a single, valid JSON object. Do not add any text before or after it.**''
     @ [CHR 0x0A] @ ''    '' @ format_instructions
     @ [CHR 0x0A] @ ''    **Patient'' @ [CHR 0x27] @ ''s statement ('' @ language @ ''):** ''
     @ [CHR 0x22] @ patient_text @ [CHR 0x22]
     @ [CHR 0x0A] @ ''    ''"

text \<open>\<open>chain.invoke\<close>: prompt, model, parser.\<close>

definition chain_invoke :: "(string \<Rightarrow> llm_outcome) \<Rightarrow> string \<Rightarrow> exn + TriageResponse" where
  "chain_invoke llm prompt =
     (case llm prompt of
        LlmRaised e \<Rightarrow> Inl e
      | LlmNotJson text \<Rightarrow> Inl (OutputParserException (''Invalid json output: '' @ text))
      | LlmJson obj \<Rightarrow> parse_TriageResponse obj)"

text \<open>The function returns a \<open>TriageResponse\<close> or an error text.\<close>

datatype triage_value = ErrorStr string | Triage TriageResponse

definition get_ai_triage_analysis ::
  "(string \<Rightarrow> llm_outcome) \<Rightarrow> string \<Rightarrow> string \<Rightarrow> string \<Rightarrow> triage_value" where
  "get_ai_triage_analysis llm format_instructions patient_text language =
     (case chain_invoke llm (render_prompt format_instructions patient_text language) of
        Inr r \<Rightarrow> Triage r
      | Inl e \<Rightarrow> ErrorStr (''Error processing AI response: '' @ str_exn e))"

section \<open>\<open>transcribe_audio\<close>\<close>

text \<open>What lines 55 to 57 yield: the recognised text, or an exception.\<close>

datatype sr_outcome = SrText string | SrRaised exn

definition transcribe_audio :: "(string \<Rightarrow> string \<Rightarrow> sr_outcome) \<Rightarrow> string \<Rightarrow> string \<Rightarrow> string py" where
  "transcribe_audio speech audio_file language_code =
     (case speech audio_file language_code of
        SrText text \<Rightarrow> Return text
      | SrRaised e \<Rightarrow>
          (case e of
             UnknownValueError m \<Rightarrow> Return ''Error: Could not understand the audio.''
           | RequestError m \<Rightarrow> Return ''Error: API request failed. Check internet.''
           | _ \<Rightarrow> Raise e))"

section \<open>The script \<open>app.py\<close>\<close>

text \<open>\<open>sub in s\<close> on strings.\<close>

fun starts_with :: "string \<Rightarrow> string \<Rightarrow> bool" where
  "starts_with [] s = True"
| "starts_with (p # ps) [] = False"
| "starts_with (p # ps) (c # cs) = (p = c \<and> starts_with ps cs)"

fun str_in :: "string \<Rightarrow> string \<Rightarrow> bool" where
  "str_in sub [] = (sub = [])"
| "str_in sub (c # cs) = (starts_with sub (c # cs) \<or> str_in sub cs)"

definition load_ai_model :: "env \<Rightarrow> unit py" where
  "load_ai_model ev =
     (if key_missing (GOOGLE_API_KEY ev)
      then Raise (ValueError ''GOOGLE_API_KEY for Gemini not found!'')
      else Return ())"

datatype language = English_India | Hindi

fun language_name :: "language \<Rightarrow> string" where
  "language_name English_India = ''English (India)''"
| "language_name Hindi = ''Hindi''"

fun language_map :: "language \<Rightarrow> string" where
  "language_map English_India = ''en-IN''"
| "language_map Hindi = ''hi-IN''"

datatype geocode_outcome = GeoFound real real | GeoNotFound | GeoRaised exn

text \<open>The services and library calls outside the repository.\<close>

record externals =
  speech :: "string \<Rightarrow> string \<Rightarrow> sr_outcome"
  llm :: "string \<Rightarrow> llm_outcome"
  format_instructions :: string
  http :: "places_request \<Rightarrow> http_outcome"
  sort_values :: "place_row list \<Rightarrow> place_row list"
  geocode :: "string \<Rightarrow> geocode_outcome"

text \<open>What the user did before this run of the script.\<close>

record ui_input =
  geolocation :: "(real \<times> real) option"
  manual_city :: string
  find_location_clicked :: bool
  selected_language :: language
  uploaded_file :: "string option"
  analyze_clicked :: bool

text \<open>\<open>st.session_state\<close>, which outlives a run.\<close>

record session =
  analysis_result :: "TriageResponse option"
  user_location :: "(real \<times> real) option"

text \<open>
  The trace of a run: the calls of the three backend functions, the status updates and
  the messages shown. Pure layout calls (titles, captions, tabs, the report's text)
  leave no event, and the numbers and pictograms inside messages are left out.
\<close>

datatype event =
    St_error string
  | St_stop
  | St_warning string
  | St_success string
  | Status_update string
  | Call_transcribe string string
  | Call_analyze string string
  | Call_find_nearby real real string
  | St_table "place_row list"
  | Uncaught exn

text \<open>
  A part of the script gives its events, the session state it leaves, and whether the
  run ended there (\<open>st.stop()\<close> or an exception nobody caught).
\<close>

type_synonym step_result = "event list \<times> session \<times> bool"

definition then_step :: "step_result \<Rightarrow> (session \<Rightarrow> step_result) \<Rightarrow> step_result" where
  "then_step r f =
     (case r of (evs, s, ended) \<Rightarrow>
        if ended then (evs, s, True)
        else (case f s of (evs', s', ended') \<Rightarrow> (evs @ evs', s', ended')))"

text \<open>Lines 46 to 68: the sidebar.\<close>

definition sidebar :: "externals \<Rightarrow> ui_input \<Rightarrow> session \<Rightarrow> step_result" where
  "sidebar w ui s =
     (let (ev1, s1) =
            (case geolocation ui of
               None \<Rightarrow> ([], s)
             | Some loc \<Rightarrow> ([St_success ''Location captured''], s\<lparr>user_location := Some loc\<rparr>))
      in if find_location_clicked ui
         then (case geocode w (manual_city ui) of
                 GeoFound lat lon \<Rightarrow>
                   (ev1 @ [St_success (''Location set to '' @ manual_city ui)],
                    s1\<lparr>user_location := Some (lat, lon)\<rparr>, False)
               | GeoNotFound \<Rightarrow> (ev1 @ [St_error ''Could not find this city.''], s1, False)
               | GeoRaised e \<Rightarrow> (ev1 @ [St_error (''Geocoding error: '' @ str_exn e)], s1, False))
         else (ev1, s1, False))"

text \<open>
  Lines 71 to 99: upload and analysis. The button is disabled, and so never reports a
  click, while no location is set.
\<close>

definition analysis_step :: "externals \<Rightarrow> ui_input \<Rightarrow> session \<Rightarrow> step_result" where
  "analysis_step w ui s =
     (let warn = (if user_location s = None
                  then [St_warning ''Please set your location in the sidebar to enable analysis.'']
                  else [])
      in case uploaded_file ui of
           None \<Rightarrow> (warn, s, False)
         | Some audio \<Rightarrow>
             if analyze_clicked ui \<and> user_location s \<noteq> None
             then
               (let s1 = s\<lparr>analysis_result := None\<rparr>;
                    selected_language_name = language_name (selected_language ui);
                    language_code = language_map (selected_language ui);
                    ev1 = warn @ [Status_update (''Analyzing in '' @ selected_language_name @ ''...''),
                                  Status_update ''Transcribing audio...'',
                                  Call_transcribe audio language_code]
                in case transcribe_audio (speech w) audio language_code of
                     Raise e \<Rightarrow> (ev1 @ [Uncaught e], s1, True)
                   | Return transcribed_text \<Rightarrow>
                       if str_in ''Error:'' transcribed_text
                       then (ev1 @ [Status_update ''Transcription Failed.'', St_error transcribed_text],
                             s1, False)
                       else
                         (let ev2 = ev1 @ [Status_update ''Analyzing symptoms with Gemini Flash...'',
                                           Call_analyze transcribed_text selected_language_name]
                          in case get_ai_triage_analysis (llm w) (format_instructions w)
                                    transcribed_text selected_language_name of
                               Triage r \<Rightarrow>
                                 (ev2 @ [Status_update ''Analysis Complete!''],
                                  s1\<lparr>analysis_result := Some r\<rparr>, False)
                             | ErrorStr m \<Rightarrow>
                                 (ev2 @ [Status_update ''AI Analysis Failed.'', St_error m],
                                  s1\<lparr>analysis_result := None\<rparr>, False)))
             else (warn, s, False))"

text \<open>Lines 112 to 115 and 144 to 147: a table of the rows, or a warning.\<close>

definition show_places :: "string \<Rightarrow> places_value \<Rightarrow> event list" where
  "show_places msg v =
     (case v of
        DataFrame rows \<Rightarrow> if rows \<noteq> [] then [St_table rows] else [St_warning msg]
      | ErrorText t \<Rightarrow> [St_warning msg])"

text \<open>One lookup of the report: the call, then the table or the warning.\<close>

definition lookup_places ::
  "env \<Rightarrow> externals \<Rightarrow> real \<Rightarrow> real \<Rightarrow> string \<Rightarrow> string \<Rightarrow> event list \<times> bool" where
  "lookup_places ev w user_lat user_lon query msg =
     (case find_nearby_places_google (sort_values w) ev (http w) user_lat user_lon query 10000 of
        Raise e \<Rightarrow> ([Call_find_nearby user_lat user_lon query, Uncaught e], True)
      | Return v \<Rightarrow> (Call_find_nearby user_lat user_lon query # show_places msg v, False))"

text \<open>Lines 102 to 147: the report.\<close>

definition display_step :: "env \<Rightarrow> externals \<Rightarrow> session \<Rightarrow> step_result" where
  "display_step ev w s =
     (case analysis_result s of
        None \<Rightarrow> ([], s, False)
      | Some result \<Rightarrow>
          (case user_location s of
             None \<Rightarrow> ([Uncaught (TypeError ''cannot unpack non-iterable NoneType object'')], s, True)
           | Some (user_lat, user_lon) \<Rightarrow>
               (let (ev1, ended1) =
                      (if urgency result = ''Emergency''
                       then (case lookup_places ev w user_lat user_lon ''hospital emergency''
                                    ''Could not find nearby emergency services.'' of
                               (evs, ended) \<Rightarrow> (St_error ''URGENCY: EMERGENCY'' # evs, ended))
                       else ([], False))
                in if ended1 then (ev1, s, True)
                   else (case lookup_places ev w user_lat user_lon (suggested_specialty result)
                                (''Could not find any nearby doctors for the specialty ''
                                 @ quoted (suggested_specialty result) @ ''.'') of
                           (evs, ended) \<Rightarrow> (ev1 @ evs, s, ended)))))"

definition disclaimer :: string where
  "disclaimer = ''**Disclaimer:** This is a prototype and not a substitute for professional medical advice.''"

text \<open>One run of the script, top to bottom.\<close>

definition app :: "env \<Rightarrow> externals \<Rightarrow> ui_input \<Rightarrow> session \<Rightarrow> step_result" where
  "app ev w ui s =
     (case load_ai_model ev of
        Raise e \<Rightarrow>
          (case e of
             ValueError m \<Rightarrow> ([St_error m, St_stop], s, True)
           | _ \<Rightarrow> ([Uncaught e], s, True))
      | Return u \<Rightarrow>
          then_step
            (then_step
               (then_step (sidebar w ui s) (analysis_step w ui))
               (display_step ev w))
            (\<lambda>s'. ([St_warning disclaimer], s', False)))"

definition events :: "step_result \<Rightarrow> event list" where
  "events r = fst r"

fun is_Call_analyze :: "event \<Rightarrow> bool" where
  "is_Call_analyze (Call_analyze t l) = True"
| "is_Call_analyze e = False"


section \<open>What the library's sort promises\<close>

text \<open>
  \<open>sort_values\<close> is called with the library's default algorithm, \<open>quicksort\<close>, which the
  library does not document as stable. What it promises of its result on the rows \<open>rows\<close>:
  the same rows, in non-decreasing order of the column.
\<close>

definition sort_contract :: "(place_row list \<Rightarrow> place_row list) \<Rightarrow> place_row list \<Rightarrow> bool" where
  "sort_contract sv rows \<longleftrightarrow>
     sorted (map Distance_km (sv rows)) \<and> mset (sv rows) = mset rows"

text \<open>Two sorts that keep the promise: one keeps rows of equal distance in their order, one reverses them.\<close>

definition stable_sort :: "place_row list \<Rightarrow> place_row list" where
  "stable_sort rows = sort_key Distance_km rows"


text \<open>Stability: rows of equal distance come out in the order they went in.\<close>

definition keeps_tie_order :: "place_row list \<Rightarrow> place_row list \<Rightarrow> bool" where
  "keeps_tie_order rows out \<longleftrightarrow>
     list_all (\<lambda>d. filter (\<lambda>r. Distance_km r = d) out = filter (\<lambda>r. Distance_km r = d) rows)
       (map Distance_km rows)"

section \<open>The distance formula as the specification words it\<close>

text \<open>
  Angles in degrees, converted to radians;
  \<open>a = sin\<^sup>2(\<Delta>lat/2) + cos(lat1) \<cdot> cos(lat2) \<cdot> sin\<^sup>2(\<Delta>lon/2)\<close>;
  distance \<open>2 \<cdot> R \<cdot> asin(\<surd>a)\<close> with \<open>R = 6371\<close> km.
\<close>

definition haversineKm :: "real \<Rightarrow> real \<Rightarrow> real \<Rightarrow> real \<Rightarrow> real" where
  "haversineKm lat1 lon1 lat2 lon2 =
     (let p1 = lat1 * pi / 180; l1 = lon1 * pi / 180;
          p2 = lat2 * pi / 180; l2 = lon2 * pi / 180;
          a = (sin ((p2 - p1) / 2))\<^sup>2 + cos p1 * cos p2 * (sin ((l2 - l1) / 2))\<^sup>2
      in 2 * 6371 * arcsin (sqrt a))"

section \<open>The distance computation never leaves the domain of its functions\<close>

text \<open>
  Over the real numbers the argument of the square root lies between 0 and 1, so neither
  \<open>sqrt\<close> nor \<open>asin\<close> raises. (In floating point, rounding can push it outside for
  nearly antipodal points; that is outside this model.)
\<close>

lemma hav_split:
  fixes p1 p2 y :: real
  shows "(sin ((p2 - p1) / 2))\<^sup>2 + cos p1 * cos p2 * (sin y)\<^sup>2
       = (sin ((p2 - p1) / 2))\<^sup>2 * (1 - (sin y)\<^sup>2) + (cos ((p1 + p2) / 2))\<^sup>2 * (sin y)\<^sup>2"
proof -
  define x where "x = (p2 - p1) / 2"
  define s where "s = (p1 + p2) / 2"
  have p1: "p1 = s - x" and p2: "p2 = s + x" by (simp_all add: x_def s_def field_simps)
  have cc: "cos p1 * cos p2 = (cos s)\<^sup>2 * (cos x)\<^sup>2 - (sin s)\<^sup>2 * (sin x)\<^sup>2"
    unfolding p1 p2 cos_add cos_diff by (simp add: power2_eq_square algebra_simps)
  have cx: "(cos x)\<^sup>2 = 1 - (sin x)\<^sup>2" by (simp add: cos_squared_eq)
  have ss: "(sin s)\<^sup>2 = 1 - (cos s)\<^sup>2" by (simp add: sin_squared_eq)
  show ?thesis
    unfolding x_def[symmetric] s_def[symmetric] cc cx ss
    by (simp add: algebra_simps)
qed

lemma hav_ge0:
  fixes p1 p2 y :: real
  shows "0 \<le> (sin ((p2 - p1) / 2))\<^sup>2 + cos p1 * cos p2 * (sin y)\<^sup>2"
proof -
  have "(sin y)\<^sup>2 \<le> 1" by (simp add: abs_square_le_1)
  then have "0 \<le> (sin ((p2 - p1) / 2))\<^sup>2 * (1 - (sin y)\<^sup>2)" by simp
  moreover have "0 \<le> (cos ((p1 + p2) / 2))\<^sup>2 * (sin y)\<^sup>2" by simp
  ultimately show ?thesis unfolding hav_split by linarith
qed

lemma hav_le1:
  fixes p1 p2 y :: real
  shows "(sin ((p2 - p1) / 2))\<^sup>2 + cos p1 * cos p2 * (sin y)\<^sup>2 \<le> 1"
proof -
  have t: "(sin y)\<^sup>2 \<le> 1" "0 \<le> (sin y)\<^sup>2" by (simp_all add: abs_square_le_1)
  have a: "(sin ((p2 - p1) / 2))\<^sup>2 \<le> 1" by (simp add: abs_square_le_1)
  have b: "(cos ((p1 + p2) / 2))\<^sup>2 \<le> 1" by (simp add: abs_square_le_1)
  have "(sin ((p2 - p1) / 2))\<^sup>2 * (1 - (sin y)\<^sup>2) \<le> 1 - (sin y)\<^sup>2"
    using mult_right_mono [OF a, of "1 - (sin y)\<^sup>2"] t by simp
  moreover have "(cos ((p1 + p2) / 2))\<^sup>2 * (sin y)\<^sup>2 \<le> (sin y)\<^sup>2"
    using mult_right_mono [OF b, of "(sin y)\<^sup>2"] t by simp
  ultimately show ?thesis unfolding hav_split by linarith
qed

lemma try_bind_Inr [simp]: "try_bind (Inr v) f = f v"
  by (simp add: try_bind_def)

lemma try_bind_Inl [simp]: "try_bind (Inl e) f = Inl e"
  by (simp add: try_bind_def)

lemma py_sqrt_hav:
  "py_sqrt ((sin ((p2 - p1) / 2))\<^sup>2 + cos p1 * cos p2 * (sin y)\<^sup>2)
     = Inr (sqrt ((sin ((p2 - p1) / 2))\<^sup>2 + cos p1 * cos p2 * (sin y)\<^sup>2))"
  using hav_ge0 [of p2 p1 y] by (simp add: py_sqrt_def)

lemma py_asin_hav:
  "py_asin (sqrt ((sin ((p2 - p1) / 2))\<^sup>2 + cos p1 * cos p2 * (sin y)\<^sup>2))
     = Inr (arcsin (sqrt ((sin ((p2 - p1) / 2))\<^sup>2 + cos p1 * cos p2 * (sin y)\<^sup>2)))"
proof -
  let ?a = "(sin ((p2 - p1) / 2))\<^sup>2 + cos p1 * cos p2 * (sin y)\<^sup>2"
  have "0 \<le> sqrt ?a" using hav_ge0 [of p2 p1 y] by simp
  then have "\<not> sqrt ?a < - 1" by linarith
  moreover have "\<not> 1 < sqrt ?a" using hav_le1 [of p2 p1 y] by simp
  ultimately show ?thesis unfolding py_asin_def by simp
qed

lemma distance_to_numbers:
  assumes "number_of lat_v = Some lat2" and "number_of lng_v = Some lon2"
  shows "distance_to latitude longitude lat_v lng_v
           = Inr (haversineKm latitude longitude lat2 lon2)"
  using assms
  by (simp add: distance_to_def py_radians_def Let_def py_sqrt_hav py_asin_hav
      haversineKm_def radians_def)

lemma place_to_row_JObj:
  assumes "place_location (JObj kvs) = Inr (JObj l)"
    and "number_of (get_or l ''lat'' (JInt 0)) = Some lat2"
    and "number_of (get_or l ''lng'' (JInt 0)) = Some lon2"
  shows "place_to_row latitude longitude (JObj kvs)
           = Inr \<lparr>Name = get_or kvs ''name'' (JStr ''N/A''),
                  Address = get_or kvs ''vicinity'' (JStr ''N/A''),
                  Rating = get_or kvs ''rating'' (JStr ''N/A''),
                  Distance_km = haversineKm latitude longitude lat2 lon2\<rparr>"
  using assms by (simp add: place_to_row_def distance_to_numbers)

lemma collect_places_iff:
  "collect_places la lo items acc = Inr rows \<longleftrightarrow>
     (\<exists>rs. rows = acc @ rs \<and> list_all2 (\<lambda>p r. place_to_row la lo p = Inr r) items rs)"
proof (induction items arbitrary: acc)
  case Nil
  then show ?case by auto
next
  case (Cons p ps)
  show ?case
  proof (cases "place_to_row la lo p")
    case (Inl e)
    then show ?thesis by (auto simp: list_all2_Cons1)
  next
    case (Inr r)
    then show ?thesis by (auto simp: Cons.IH list_all2_Cons1)
  qed
qed

lemma collect_places_rows:
  "list_all2 (\<lambda>p r. place_to_row la lo p = Inr r) items rows
     \<Longrightarrow> collect_places la lo items [] = Inr rows"
  by (simp add: collect_places_iff)

lemma find_nearby_rows:
  assumes "GOOGLE_MAPS_API_KEY ev = Some k" and "k \<noteq> []"
    and "h \<lparr>req_location = (la, lo), req_radius = rad, req_keyword = q, req_key = k\<rparr>
           = HttpJson (JObj d)"
    and "map_of d ''results'' = Some (JArr items)"
    and "items \<noteq> []"
    and "list_all2 (\<lambda>p r. place_to_row la lo p = Inr r) items rows"
  shows "find_nearby_places_google sv ev h la lo q rad = Return (DataFrame (sv rows))"
proof -
  have "rows \<noteq> []" using assms(5,6) by (auto simp: list_all2_Cons1 neq_Nil_conv)
  then show ?thesis
    using assms
    by (simp add: find_nearby_places_google_def nearby_try_def get_or_def collect_places_rows)
qed

section \<open>Facts about the loop and the call\<close>

lemma place_location_no_geometry:
  "map_of kvs ''geometry'' = None \<Longrightarrow> place_location (JObj kvs) = Inr (JObj [])"
  by (simp add: place_location_def get_or_def)

lemma place_location_no_location:
  "map_of kvs ''geometry'' = Some (JObj g) \<Longrightarrow> map_of g ''location'' = None
     \<Longrightarrow> place_location (JObj kvs) = Inr (JObj [])"
  by (simp add: place_location_def get_or_def)

lemma place_location_found:
  "map_of kvs ''geometry'' = Some (JObj g) \<Longrightarrow> map_of g ''location'' = Some loc
     \<Longrightarrow> place_location (JObj kvs) = Inr loc"
  by (simp add: place_location_def get_or_def)

lemma sort_contract_stable_sort: "sort_contract stable_sort rows"
  by (simp add: sort_contract_def stable_sort_def)


lemma find_nearby_in_frame:
  assumes "GOOGLE_MAPS_API_KEY ev = Some k" and "k \<noteq> []"
    and "h \<lparr>req_location = (la, lo), req_radius = rad, req_keyword = q, req_key = k\<rparr>
           = HttpJson (JObj d)"
    and "map_of d ''results'' = Some (JArr (before @ place # after))"
    and "list_all2 (\<lambda>p r. place_to_row la lo p = Inr r) before rows_b"
    and "place_to_row la lo place = Inr row"
    and "list_all2 (\<lambda>p r. place_to_row la lo p = Inr r) after rows_a"
    and "sort_contract sv (rows_b @ row # rows_a)"
  shows "find_nearby_places_google sv ev h la lo q rad
           = Return (DataFrame (sv (rows_b @ row # rows_a)))
         \<and> row \<in> set (sv (rows_b @ row # rows_a))
         \<and> length (sv (rows_b @ row # rows_a)) = length (before @ place # after)"
proof -
  let ?rows = "rows_b @ row # rows_a"
  have all: "list_all2 (\<lambda>p r. place_to_row la lo p = Inr r) (before @ place # after) ?rows"
    using assms(5,6,7) by (simp add: list_all2_appendI)
  have call: "find_nearby_places_google sv ev h la lo q rad = Return (DataFrame (sv ?rows))"
    using assms(1,2,3,4) all by (intro find_nearby_rows [where k = k and d = d]) simp_all
  have m: "mset (sv ?rows) = mset ?rows"
    using assms(8) by (simp add: sort_contract_def)
  have "row \<in># mset (sv ?rows)" unfolding m by simp
  then have mem: "row \<in> set (sv ?rows)" by simp
  have "size (mset (sv ?rows)) = size (mset ?rows)" by (simp only: m)
  then have len: "length (sv ?rows) = length (before @ place # after)"
    using list_all2_lengthD [OF all] by simp
  show ?thesis using call mem len by simp
qed

section \<open>Claims about the place lookup\<close>

text \<open>
  Claim C7. For a candidate whose \<open>geometry.location\<close> holds the numbers \<open>lat2\<close> and
  \<open>lon2\<close> (in degrees), and a query point \<open>latitude\<close>, \<open>longitude\<close> (in degrees), the loop
  body yields a row, and the distance it attaches is the haversine distance as the
  specification words it: degrees converted to radians,
  \<open>a = sin\<^sup>2(\<Delta>lat/2) + cos(lat1) cos(lat2) sin\<^sup>2(\<Delta>lon/2)\<close>, distance \<open>2 R asin(\<surd>a)\<close> with
  \<open>R = 6371\<close>. Numbers are real numbers here, not floats.
\<close>

theorem distance_is_haversine:
  assumes "map_of kvs ''geometry'' = Some (JObj g)"
    and "map_of g ''location'' = Some (JObj l)"
    and "map_of l ''lat'' = Some lat_v" and "number_of lat_v = Some lat2"
    and "map_of l ''lng'' = Some lng_v" and "number_of lng_v = Some lon2"
  shows "place_to_row latitude longitude (JObj kvs)
           = Inr \<lparr>Name = get_or kvs ''name'' (JStr ''N/A''),
                  Address = get_or kvs ''vicinity'' (JStr ''N/A''),
                  Rating = get_or kvs ''rating'' (JStr ''N/A''),
                  Distance_km = haversineKm latitude longitude lat2 lon2\<rparr>"
proof -
  have "place_location (JObj kvs) = Inr (JObj l)"
    using assms(1,2) by (rule place_location_found)
  moreover have "number_of (get_or l ''lat'' (JInt 0)) = Some lat2"
    using assms(3,4) by (simp add: get_or_def)
  moreover have "number_of (get_or l ''lng'' (JInt 0)) = Some lon2"
    using assms(5,6) by (simp add: get_or_def)
  ultimately show ?thesis by (rule place_to_row_JObj)
qed

theorem distance_is_haversine_witness:
  "place_to_row 28.6139 77.209
     (JObj [(''name'', JStr ''Smile Dental''),
            (''geometry'', JObj [(''location'', JObj [(''lat'', JFloat 28.62), (''lng'', JFloat 77.21)])])])
   = Inr \<lparr>Name = JStr ''Smile Dental'', Address = JStr ''N/A'', Rating = JStr ''N/A'',
          Distance_km = haversineKm 28.6139 77.209 28.62 77.21\<rparr>"
  using distance_is_haversine [where kvs = "[(''name'', JStr ''Smile Dental''),
            (''geometry'', JObj [(''location'', JObj [(''lat'', JFloat 28.62), (''lng'', JFloat 77.21)])])]"
      and g = "[(''location'', JObj [(''lat'', JFloat 28.62), (''lng'', JFloat 77.21)])]"
      and l = "[(''lat'', JFloat 28.62), (''lng'', JFloat 77.21)]"
      and lat_v = "JFloat 28.62" and lng_v = "JFloat 77.21" and ?lat2.0 = "28.62" and ?lon2.0 = "77.21"
      and latitude = "28.6139" and longitude = "77.209"]
  by (simp add: get_or_def)

text \<open>
  Claim C9. A candidate that lacks \<open>geometry\<close>, or whose geometry lacks \<open>location\<close>, or
  whose location lacks both \<open>lat\<close> and \<open>lng\<close>, gets latitude 0 and longitude 0: the loop
  body yields its row with the haversine distance from the query point to (0, 0). When
  the other candidates of the response convert too, the call returns the data frame of all
  rows, this one among them: the record is neither skipped nor reported as an error.
\<close>

theorem missing_coordinates_default_to_origin:
  assumes lacks: "map_of kvs ''geometry'' = None
      \<or> (\<exists>g. map_of kvs ''geometry'' = Some (JObj g) \<and> map_of g ''location'' = None)
      \<or> (\<exists>g l. map_of kvs ''geometry'' = Some (JObj g) \<and> map_of g ''location'' = Some (JObj l)
            \<and> map_of l ''lat'' = None \<and> map_of l ''lng'' = None)"
    and key: "GOOGLE_MAPS_API_KEY ev = Some k" "k \<noteq> []"
    and body: "h \<lparr>req_location = (latitude, longitude), req_radius = rad, req_keyword = q, req_key = k\<rparr>
           = HttpJson (JObj d)"
      "map_of d ''results'' = Some (JArr (before @ JObj kvs # after))"
    and others: "list_all2 (\<lambda>p r. place_to_row latitude longitude p = Inr r) before rows_b"
      "list_all2 (\<lambda>p r. place_to_row latitude longitude p = Inr r) after rows_a"
    and row: "row = \<lparr>Name = get_or kvs ''name'' (JStr ''N/A''),
                  Address = get_or kvs ''vicinity'' (JStr ''N/A''),
                  Rating = get_or kvs ''rating'' (JStr ''N/A''),
                  Distance_km = haversineKm latitude longitude 0 0\<rparr>"
    and sort: "sort_contract sv (rows_b @ row # rows_a)"
  shows "place_to_row latitude longitude (JObj kvs) = Inr row
         \<and> find_nearby_places_google sv ev h latitude longitude q rad
             = Return (DataFrame (sv (rows_b @ row # rows_a)))
         \<and> row \<in> set (sv (rows_b @ row # rows_a))
         \<and> length (sv (rows_b @ row # rows_a)) = length (before @ JObj kvs # after)"
proof -
  from lacks obtain l where loc: "place_location (JObj kvs) = Inr (JObj l)"
    and lat: "map_of l ''lat'' = None" and lng: "map_of l ''lng'' = None"
  proof (elim disjE exE conjE)
    assume "map_of kvs ''geometry'' = None"
    then have "place_location (JObj kvs) = Inr (JObj [])" by (rule place_location_no_geometry)
    then show ?thesis using that [of "[]"] by simp
  next
    fix g assume "map_of kvs ''geometry'' = Some (JObj g)" "map_of g ''location'' = None"
    then have "place_location (JObj kvs) = Inr (JObj [])" by (rule place_location_no_location)
    then show ?thesis using that [of "[]"] by simp
  next
    fix g l assume "map_of kvs ''geometry'' = Some (JObj g)" "map_of g ''location'' = Some (JObj l)"
      and n: "map_of l ''lat'' = None" "map_of l ''lng'' = None"
    then have "place_location (JObj kvs) = Inr (JObj l)" by (intro place_location_found)
    then show ?thesis using that n by simp
  qed
  have "number_of (get_or l ''lat'' (JInt 0)) = Some 0"
    and "number_of (get_or l ''lng'' (JInt 0)) = Some 0"
    using lat lng by (simp_all add: get_or_def)
  with loc have one: "place_to_row latitude longitude (JObj kvs) = Inr row"
    unfolding row by (rule place_to_row_JObj)
  show ?thesis
    using one find_nearby_in_frame [where h = h and la = latitude and lo = longitude and rad = rad
        and q = q, OF key body others(1) one others(2) sort] by simp
qed

theorem missing_coordinates_default_to_origin_witness:
  "place_to_row 12 77 (JObj [(''name'', JStr ''Rural Health Post'')])
     = Inr \<lparr>Name = JStr ''Rural Health Post'', Address = JStr ''N/A'', Rating = JStr ''N/A'',
            Distance_km = haversineKm 12 77 0 0\<rparr>
   \<and> find_nearby_places_google stable_sort
        \<lparr>GOOGLE_API_KEY = None, GOOGLE_MAPS_API_KEY = Some ''key''\<rparr>
        (\<lambda>req. HttpJson (JObj [(''results'', JArr [JObj [(''name'', JStr ''Rural Health Post'')]])]))
        12 77 ''clinic'' 10000
     = Return (DataFrame (stable_sort
         [\<lparr>Name = JStr ''Rural Health Post'', Address = JStr ''N/A'', Rating = JStr ''N/A'',
           Distance_km = haversineKm 12 77 0 0\<rparr>]))"
  using missing_coordinates_default_to_origin
    [where kvs = "[(''name'', JStr ''Rural Health Post'')]"
       and ev = "\<lparr>GOOGLE_API_KEY = None, GOOGLE_MAPS_API_KEY = Some ''key''\<rparr>" and k = "''key''"
       and h = "\<lambda>req. HttpJson (JObj [(''results'', JArr [JObj [(''name'', JStr ''Rural Health Post'')]])])"
       and d = "[(''results'', JArr [JObj [(''name'', JStr ''Rural Health Post'')]])]"
       and before = "[]" and after = "[]" and rows_b = "[]" and rows_a = "[]"
       and latitude = 12 and longitude = 77 and q = "''clinic''" and rad = 10000
       and sv = stable_sort, OF _ _ _ _ _ _ _ refl sort_contract_stable_sort]
  by (simp add: get_or_def)

text \<open>
  Claim C8, as stated, fails: a candidate without a \<open>rating\<close> key gets the rating
  \<open>'N/A'\<close>, the default of line 93, not a value \<open>unknown\<close>.
\<close>

theorem missing_rating_sentinel_counterexample:
  "find_nearby_places_google stable_sort
     \<lparr>GOOGLE_API_KEY = None, GOOGLE_MAPS_API_KEY = Some ''key''\<rparr>
     (\<lambda>req. HttpJson (JObj [(''results'',
        JArr [JObj [(''name'', JStr ''City Clinic''), (''vicinity'', JStr ''12 Main Road''),
                    (''geometry'', JObj [(''location'', JObj [(''lat'', JInt 0), (''lng'', JInt 0)])])]])]))
     0 0 ''dentist'' 10000
   = Return (DataFrame [\<lparr>Name = JStr ''City Clinic'', Address = JStr ''12 Main Road'',
                          Rating = JStr ''N/A'', Distance_km = 0\<rparr>])
   \<and> Rating \<lparr>Name = JStr ''City Clinic'', Address = JStr ''12 Main Road'',
              Rating = JStr ''N/A'', Distance_km = 0\<rparr> \<noteq> JStr ''unknown''"
  by (simp add: find_nearby_places_google_def nearby_try_def get_or_def place_to_row_def
      place_location_def distance_to_def py_radians_def radians_def py_sqrt_def py_asin_def
      stable_sort_def)

text \<open>
  Claim C8, amended. A candidate without a \<open>rating\<close> key, whose coordinates are numbers
  or absent, yields a row whose rating is the string \<open>'N/A'\<close>. When the other candidates of
  the response convert too, the call returns the data frame of all rows, this one among
  them: the record is not dropped and the call does not fail.
\<close>

theorem missing_rating_sentinel:
  assumes norating: "map_of kvs ''rating'' = None"
    and coords: "place_location (JObj kvs) = Inr (JObj l)"
      "number_of (get_or l ''lat'' (JInt 0)) = Some lat2"
      "number_of (get_or l ''lng'' (JInt 0)) = Some lon2"
    and key: "GOOGLE_MAPS_API_KEY ev = Some k" "k \<noteq> []"
    and body: "h \<lparr>req_location = (latitude, longitude), req_radius = rad, req_keyword = q, req_key = k\<rparr>
           = HttpJson (JObj d)"
      "map_of d ''results'' = Some (JArr (before @ JObj kvs # after))"
    and others: "list_all2 (\<lambda>p r. place_to_row latitude longitude p = Inr r) before rows_b"
      "list_all2 (\<lambda>p r. place_to_row latitude longitude p = Inr r) after rows_a"
    and row: "row = \<lparr>Name = get_or kvs ''name'' (JStr ''N/A''),
                  Address = get_or kvs ''vicinity'' (JStr ''N/A''),
                  Rating = JStr ''N/A'',
                  Distance_km = haversineKm latitude longitude lat2 lon2\<rparr>"
    and sort: "sort_contract sv (rows_b @ row # rows_a)"
  shows "place_to_row latitude longitude (JObj kvs) = Inr row
         \<and> find_nearby_places_google sv ev h latitude longitude q rad
             = Return (DataFrame (sv (rows_b @ row # rows_a)))
         \<and> row \<in> set (sv (rows_b @ row # rows_a))
         \<and> length (sv (rows_b @ row # rows_a)) = length (before @ JObj kvs # after)"
proof -
  have "get_or kvs ''rating'' (JStr ''N/A'') = JStr ''N/A''"
    using norating by (simp add: get_or_def)
  then have one: "place_to_row latitude longitude (JObj kvs) = Inr row"
    using place_to_row_JObj [OF coords, of latitude longitude] by (simp add: row)
  show ?thesis
    using one find_nearby_in_frame [where h = h and la = latitude and lo = longitude and rad = rad
        and q = q, OF key body others(1) one others(2) sort] by simp
qed

theorem missing_rating_sentinel_witness:
  "place_to_row 0 0 (JObj [(''name'', JStr ''City Clinic''),
        (''geometry'', JObj [(''location'', JObj [(''lat'', JInt 0), (''lng'', JInt 0)])])])
     = Inr \<lparr>Name = JStr ''City Clinic'', Address = JStr ''N/A'', Rating = JStr ''N/A'',
            Distance_km = haversineKm 0 0 0 0\<rparr>
   \<and> find_nearby_places_google stable_sort
        \<lparr>GOOGLE_API_KEY = None, GOOGLE_MAPS_API_KEY = Some ''key''\<rparr>
        (\<lambda>req. HttpJson (JObj [(''results'', JArr [JObj [(''name'', JStr ''City Clinic''),
           (''geometry'', JObj [(''location'', JObj [(''lat'', JInt 0), (''lng'', JInt 0)])])]])]))
        0 0 ''dentist'' 10000
     = Return (DataFrame (stable_sort
         [\<lparr>Name = JStr ''City Clinic'', Address = JStr ''N/A'', Rating = JStr ''N/A'',
           Distance_km = haversineKm 0 0 0 0\<rparr>]))"
  using missing_rating_sentinel
    [where kvs = "[(''name'', JStr ''City Clinic''),
           (''geometry'', JObj [(''location'', JObj [(''lat'', JInt 0), (''lng'', JInt 0)])])]"
       and l = "[(''lat'', JInt 0), (''lng'', JInt 0)]" and ?lat2.0 = 0 and ?lon2.0 = 0
       and ev = "\<lparr>GOOGLE_API_KEY = None, GOOGLE_MAPS_API_KEY = Some ''key''\<rparr>" and k = "''key''"
       and h = "\<lambda>req. HttpJson (JObj [(''results'', JArr [JObj [(''name'', JStr ''City Clinic''),
           (''geometry'', JObj [(''location'', JObj [(''lat'', JInt 0), (''lng'', JInt 0)])])]])])"
       and d = "[(''results'', JArr [JObj [(''name'', JStr ''City Clinic''),
           (''geometry'', JObj [(''location'', JObj [(''lat'', JInt 0), (''lng'', JInt 0)])])]])]"
       and before = "[]" and after = "[]" and rows_b = "[]" and rows_a = "[]"
       and latitude = 0 and longitude = 0 and q = "''dentist''" and rad = 10000
       and sv = stable_sort, OF _ _ _ _ _ _ _ _ _ _ refl sort_contract_stable_sort]
  by (simp add: get_or_def place_location_def)

text \<open>
  Claim C5. When the response is an object whose \<open>results\<close> entry is empty (or absent, or
  any other false value), the call returns an empty data frame, a success value and not an
  error text.
\<close>

theorem zero_results_empty_frame:
  assumes "GOOGLE_MAPS_API_KEY ev = Some k" and "k \<noteq> []"
    and "h \<lparr>req_location = (latitude, longitude), req_radius = rad, req_keyword = q, req_key = k\<rparr>
           = HttpJson (JObj d)"
    and "\<not> truthy (get_or d ''results'' JNull)"
  shows "find_nearby_places_google sv ev h latitude longitude q rad = Return (DataFrame [])"
  using assms by (simp add: find_nearby_places_google_def nearby_try_def)

theorem zero_results_empty_frame_witness:
  "find_nearby_places_google stable_sort
     \<lparr>GOOGLE_API_KEY = None, GOOGLE_MAPS_API_KEY = Some ''key''\<rparr>
     (\<lambda>req. HttpJson (JObj [(''results'', JArr []), (''status'', JStr ''ZERO_RESULTS'')]))
     28 77 ''dentist'' 10000
   = Return (DataFrame [])"
  using zero_results_empty_frame
    [where ev = "\<lparr>GOOGLE_API_KEY = None, GOOGLE_MAPS_API_KEY = Some ''key''\<rparr>" and k = "''key''"
       and h = "\<lambda>req. HttpJson (JObj [(''results'', JArr []), (''status'', JStr ''ZERO_RESULTS'')])"
       and d = "[(''results'', JArr []), (''status'', JStr ''ZERO_RESULTS'')]"
       and latitude = 28 and longitude = 77 and q = "''dentist''" and rad = 10000
       and sv = stable_sort]
  by (simp add: get_or_def)



text \<open>
  A stable sort keeps the promise of the library's sort, and keeps rows of equal distance
  in their order; the sort that reverses them keeps the promise as well.
\<close>

lemma stable_sort_keeps_tie_order: "keeps_tie_order rows (stable_sort rows)"
  by (simp add: keeps_tie_order_def stable_sort_def list_all_iff sort_key_stable)




section \<open>Claims about the triage analysis\<close>

lemma field_found: "map_of kvs k = Some v \<Longrightarrow> conv v = Some x \<Longrightarrow> field kvs k conv = Inr x"
  by (simp add: field_def)

lemma field_missing:
  "map_of kvs k = None \<Longrightarrow>
     field kvs k conv = Inl (OutputParserException (''Failed to parse TriageResponse: '' @ k @ '': Field required''))"
  by (simp add: field_def)

text \<open>What does come back as an error text: a missing field, a completion that is not JSON.\<close>

lemma missing_urgency_is_error:
  assumes "llm_call (render_prompt fi patient_text language_label) = LlmJson (JObj kvs)"
    and "map_of kvs ''urgency'' = None"
  shows "get_ai_triage_analysis llm_call fi patient_text language_label
           = ErrorStr (''Error processing AI response: Failed to parse TriageResponse: urgency: Field required'')"
  using assms by (simp add: get_ai_triage_analysis_def chain_invoke_def field_missing)

lemma not_json_is_error:
  assumes "llm_call (render_prompt fi patient_text language_label) = LlmNotJson text"
  shows "get_ai_triage_analysis llm_call fi patient_text language_label
           = ErrorStr (''Error processing AI response: Invalid json output: '' @ text)"
  using assms by (simp add: get_ai_triage_analysis_def chain_invoke_def)

text \<open>
  Claim C1, as stated, fails: \<open>urgency\<close> is declared \<open>str\<close>, with no enumeration and no
  validator, so an output whose urgency is \<open>Critical\<close>, and whose other fields conform,
  comes back as a \<open>TriageResponse\<close> and not as an error.
\<close>

theorem any_urgency_string_accepted_counterexample:
  "get_ai_triage_analysis
     (\<lambda>prompt. LlmJson (JObj [(''urgency'', JStr ''Critical''),
        (''possible_causes'', JArr [JStr ''angina'', JStr ''acid reflux'']),
        (''suggested_specialty'', JStr ''Cardiologist''),
        (''self_care_tips'', JNull),
        (''recommended_tests'', JArr [JStr ''ECG'']),
        (''explanation'', JStr ''Chest pain should be examined.'')]))
     [] ''I have chest pain'' ''English (India)''
   = Triage \<lparr>urgency = ''Critical'', possible_causes = [''angina'', ''acid reflux''],
             suggested_specialty = ''Cardiologist'', self_care_tips = None,
             recommended_tests = Some [''ECG''],
             explanation = ''Chest pain should be examined.''\<rparr>
   \<and> ''Critical'' \<notin> {''Emergency'', ''Urgent'', ''Routine''}"
  by (simp add: get_ai_triage_analysis_def chain_invoke_def field_def)

text \<open>
  Claim C1, amended. For every model output whose fields conform to the schema, whatever
  string the urgency field holds, inside or outside Emergency, Urgent and Routine, the
  analysis returns a \<open>TriageResponse\<close> that carries this string unchanged.
\<close>

theorem any_urgency_string_accepted:
  assumes "llm_call (render_prompt fi patient_text language_label) = LlmJson (JObj kvs)"
    and "map_of kvs ''urgency'' = Some (JStr u)"
    and "map_of kvs ''possible_causes'' = Some pc_v" and "as_str_list pc_v = Some pc"
    and "map_of kvs ''suggested_specialty'' = Some (JStr sp)"
    and "map_of kvs ''self_care_tips'' = Some tips_v" and "as_opt_str_list tips_v = Some tips"
    and "map_of kvs ''recommended_tests'' = Some tests_v" and "as_opt_str_list tests_v = Some tests"
    and "map_of kvs ''explanation'' = Some (JStr ex)"
  shows "get_ai_triage_analysis llm_call fi patient_text language_label
           = Triage \<lparr>urgency = u, possible_causes = pc, suggested_specialty = sp,
                     self_care_tips = tips, recommended_tests = tests, explanation = ex\<rparr>"
  using assms
  by (simp add: get_ai_triage_analysis_def chain_invoke_def field_found)

theorem any_urgency_string_accepted_witness:
  "get_ai_triage_analysis
     (\<lambda>prompt. LlmJson (JObj [(''urgency'', JStr ''Banana''),
        (''possible_causes'', JArr [JStr ''cold'']),
        (''suggested_specialty'', JStr ''General Physician''),
        (''self_care_tips'', JArr [JStr ''rest'']),
        (''recommended_tests'', JNull),
        (''explanation'', JStr ''Mild symptoms.'')]))
     ''Return JSON.'' ''I sneeze a lot'' ''English (India)''
   = Triage \<lparr>urgency = ''Banana'', possible_causes = [''cold''],
             suggested_specialty = ''General Physician'', self_care_tips = Some [''rest''],
             recommended_tests = None, explanation = ''Mild symptoms.''\<rparr>"
  using any_urgency_string_accepted
    [where llm_call = "\<lambda>prompt. LlmJson (JObj [(''urgency'', JStr ''Banana''),
        (''possible_causes'', JArr [JStr ''cold'']),
        (''suggested_specialty'', JStr ''General Physician''),
        (''self_care_tips'', JArr [JStr ''rest'']),
        (''recommended_tests'', JNull),
        (''explanation'', JStr ''Mild symptoms.'')])"
      and kvs = "[(''urgency'', JStr ''Banana''),
        (''possible_causes'', JArr [JStr ''cold'']),
        (''suggested_specialty'', JStr ''General Physician''),
        (''self_care_tips'', JArr [JStr ''rest'']),
        (''recommended_tests'', JNull),
        (''explanation'', JStr ''Mild symptoms.'')]"
      and u = "''Banana''" and pc_v = "JArr [JStr ''cold'']" and pc = "[''cold'']"
      and sp = "''General Physician''" and tips_v = "JArr [JStr ''rest'']" and tips = "Some [''rest'']"
      and tests_v = JNull and tests = None and ex = "''Mild symptoms.''"
      and fi = "''Return JSON.''" and patient_text = "''I sneeze a lot''"
      and language_label = "''English (India)''"]
  by simp

section \<open>Facts about a run of the script\<close>

text \<open>\<open>str_in\<close> is the substring test: the text is some prefix, the pattern, some suffix.\<close>

lemma starts_with_iff: "starts_with sub s \<longleftrightarrow> (\<exists>q. s = sub @ q)"
  by (induction sub s rule: starts_with.induct) auto

lemma str_in_iff: "str_in sub s \<longleftrightarrow> (\<exists>p q. s = p @ sub @ q)"
proof (induction s)
  case Nil
  then show ?case by auto
next
  case (Cons c cs)
  show ?case
  proof
    assume "str_in sub (c # cs)"
    then consider "starts_with sub (c # cs)" | "str_in sub cs" by auto
    then show "\<exists>p q. c # cs = p @ sub @ q"
    proof cases
      case 1
      then obtain q where "c # cs = sub @ q" by (auto simp: starts_with_iff)
      then have "c # cs = [] @ sub @ q" by simp
      then show ?thesis by blast
    next
      case 2
      then obtain p q where "cs = p @ sub @ q" using Cons.IH by auto
      then have "c # cs = (c # p) @ sub @ q" by simp
      then show ?thesis by blast
    qed
  next
    assume "\<exists>p q. c # cs = p @ sub @ q"
    then obtain p q where pq: "c # cs = p @ sub @ q" by auto
    show "str_in sub (c # cs)"
    proof (cases p)
      case Nil
      with pq have "starts_with sub (c # cs)" by (auto simp: starts_with_iff)
      then show ?thesis by simp
    next
      case (Cons a p')
      with pq have "cs = p' @ sub @ q" by simp
      then have "str_in sub cs" using Cons.IH by auto
      then show ?thesis by simp
    qed
  qed
qed

lemma fst_then_step:
  "fst (then_step r f) =
     (case r of (evs, s, ended) \<Rightarrow> if ended then evs else evs @ fst (f s))"
  by (auto simp: then_step_def split: prod.splits)

lemma list_ex_then_step:
  assumes "\<not> list_ex P (fst r)" and "\<And>s. \<not> list_ex P (fst (f s))"
  shows "\<not> list_ex P (fst (then_step r f))"
  using assms by (cases r) (auto simp: fst_then_step)

lemma sidebar_no_analyze: "\<not> list_ex is_Call_analyze (fst (sidebar w ui s))"
  by (simp add: sidebar_def Let_def split: option.split geocode_outcome.split)

lemma show_places_no_analyze: "\<not> list_ex is_Call_analyze (show_places msg v)"
  by (simp add: show_places_def split: places_value.split)

lemma lookup_places_no_analyze:
  "\<not> list_ex is_Call_analyze (fst (lookup_places ev w la lo q msg))"
  by (simp add: lookup_places_def show_places_no_analyze split: py.split)

lemma report_shape_no_analyze:
  fixes A B :: "event list \<times> bool"
  assumes "\<not> list_ex P (fst A)" and "\<not> list_ex P (fst B)" and "\<not> P x"
  shows "\<not> list_ex P (fst
     (let (ev1, ended1) = (if c then (case A of (evs, ended) \<Rightarrow> (x # evs, ended)) else ([], False))
      in if ended1 then (ev1, s, True)
         else (case B of (evs, ended) \<Rightarrow> (ev1 @ evs, s, ended))))"
  using assms by (cases A; cases B) (auto simp: Let_def)

lemma display_step_no_analyze: "\<not> list_ex is_Call_analyze (fst (display_step ev w s))"
proof (cases "analysis_result s")
  case None
  then show ?thesis by (simp add: display_step_def)
next
  case (Some result)
  note res = this
  show ?thesis
  proof (cases "user_location s")
    case None
    with res show ?thesis by (simp add: display_step_def)
  next
    case (Some loc)
    obtain la lo where loc: "loc = (la, lo)" by (cases loc)
    have "display_step ev w s =
      (let (ev1, ended1) =
             (if urgency result = ''Emergency''
              then (case lookup_places ev w la lo ''hospital emergency''
                           ''Could not find nearby emergency services.'' of
                      (evs, ended) \<Rightarrow> (St_error ''URGENCY: EMERGENCY'' # evs, ended))
              else ([], False))
       in if ended1 then (ev1, s, True)
          else (case lookup_places ev w la lo (suggested_specialty result)
                       (''Could not find any nearby doctors for the specialty ''
                        @ quoted (suggested_specialty result) @ ''.'') of
                  (evs, ended) \<Rightarrow> (ev1 @ evs, s, ended)))"
      unfolding display_step_def res Some loc by (simp only: option.case prod.case)
    then show ?thesis
      by (simp only: report_shape_no_analyze [OF lookup_places_no_analyze lookup_places_no_analyze]
          is_Call_analyze.simps not_False_eq_True)
  qed
qed

lemma analysis_step_error_text:
  assumes "uploaded_file ui = Some audio"
    and "transcribe_audio (speech w) audio (language_map (selected_language ui)) = Return t"
    and "str_in ''Error:'' t"
  shows "\<not> list_ex is_Call_analyze (fst (analysis_step w ui s))"
  using assms by (simp add: analysis_step_def Let_def)

lemma analysis_step_failed:
  assumes "uploaded_file ui = Some audio"
    and "transcribe_audio (speech w) audio (language_map (selected_language ui)) = Return t"
    and "str_in ''Error:'' t"
    and "analyze_clicked ui" and "user_location s \<noteq> None"
  shows "analysis_step w ui s =
     ([Status_update (''Analyzing in '' @ language_name (selected_language ui) @ ''...''),
       Status_update ''Transcribing audio...'',
       Call_transcribe audio (language_map (selected_language ui)),
       Status_update ''Transcription Failed.'',
       St_error t],
      s\<lparr>analysis_result := None\<rparr>, False)"
  using assms by (simp add: analysis_step_def Let_def)

lemma app_error_text_no_analyze:
  assumes "uploaded_file ui = Some audio"
    and "transcribe_audio (speech w) audio (language_map (selected_language ui)) = Return t"
    and "str_in ''Error:'' t"
  shows "\<not> list_ex is_Call_analyze (events (app ev w ui s))"
proof (cases "load_ai_model ev")
  case (Raise e)
  then show ?thesis by (cases e) (simp_all add: app_def events_def)
next
  case (Return u)
  have "\<not> list_ex is_Call_analyze
          (fst (then_step
            (then_step
               (then_step (sidebar w ui s) (analysis_step w ui))
               (display_step ev w))
            (\<lambda>s'. ([St_warning disclaimer], s', False))))"
    by (intro list_ex_then_step sidebar_no_analyze display_step_no_analyze
        analysis_step_error_text [OF assms]) simp
  with Return show ?thesis by (simp add: app_def events_def)
qed

lemma str_in_sentinel: "str_in ''Error:'' ''Error: Could not understand the audio.''"
  by simp

section \<open>Claims about the script\<close>

text \<open>
  Claim C6. When the speech service raises its unintelligible-audio exception for the
  uploaded audio, \<open>transcribe_audio\<close> returns the text
  \<open>Error: Could not understand the audio.\<close>, no run of the script on that upload calls
  \<open>get_ai_triage_analysis\<close>, and a run in which the button was pressed ends the analysis
  part with the status \<open>Transcription Failed.\<close> and this text as the error shown.
\<close>

theorem unintelligible_audio_stops_before_analysis:
  assumes "uploaded_file ui = Some audio"
    and "speech w audio (language_map (selected_language ui)) = SrRaised (UnknownValueError m)"
  shows "transcribe_audio (speech w) audio (language_map (selected_language ui))
           = Return ''Error: Could not understand the audio.''
     \<and> \<not> list_ex is_Call_analyze (events (app ev w ui s))
     \<and> (analyze_clicked ui \<and> user_location s \<noteq> None \<longrightarrow>
          analysis_step w ui s =
            ([Status_update (''Analyzing in '' @ language_name (selected_language ui) @ ''...''),
              Status_update ''Transcribing audio...'',
              Call_transcribe audio (language_map (selected_language ui)),
              Status_update ''Transcription Failed.'',
              St_error ''Error: Could not understand the audio.''],
             s\<lparr>analysis_result := None\<rparr>, False))"
proof -
  have t: "transcribe_audio (speech w) audio (language_map (selected_language ui))
           = Return ''Error: Could not understand the audio.''"
    using assms(2) by (simp add: transcribe_audio_def)
  show ?thesis
    using t app_error_text_no_analyze [OF assms(1) t str_in_sentinel]
      analysis_step_failed [OF assms(1) t str_in_sentinel]
    by blast
qed

theorem unintelligible_audio_stops_before_analysis_witness:
  "transcribe_audio (\<lambda>a c. SrRaised (UnknownValueError [])) ''RIFF'' ''en-IN''
     = Return ''Error: Could not understand the audio.''
   \<and> \<not> list_ex is_Call_analyze (events (app
        \<lparr>GOOGLE_API_KEY = Some ''llm-key'', GOOGLE_MAPS_API_KEY = Some ''maps-key''\<rparr>
        \<lparr>speech = \<lambda>a c. SrRaised (UnknownValueError []),
         llm = \<lambda>p. LlmNotJson ''never asked'',
         format_instructions = [],
         http = \<lambda>req. HttpJson (JObj []),
         sort_values = stable_sort,
         geocode = \<lambda>c. GeoNotFound\<rparr>
        \<lparr>geolocation = Some (28, 77), manual_city = [], find_location_clicked = False,
         selected_language = English_India, uploaded_file = Some ''RIFF'',
         analyze_clicked = True\<rparr>
        \<lparr>analysis_result = None, user_location = None\<rparr>))
   \<and> analysis_step
        \<lparr>speech = \<lambda>a c. SrRaised (UnknownValueError []),
         llm = \<lambda>p. LlmNotJson ''never asked'',
         format_instructions = [],
         http = \<lambda>req. HttpJson (JObj []),
         sort_values = stable_sort,
         geocode = \<lambda>c. GeoNotFound\<rparr>
        \<lparr>geolocation = Some (28, 77), manual_city = [], find_location_clicked = False,
         selected_language = English_India, uploaded_file = Some ''RIFF'',
         analyze_clicked = True\<rparr>
        \<lparr>analysis_result = None, user_location = Some (28, 77)\<rparr>
      = ([Status_update ''Analyzing in English (India)...'',
          Status_update ''Transcribing audio...'',
          Call_transcribe ''RIFF'' ''en-IN'',
          Status_update ''Transcription Failed.'',
          St_error ''Error: Could not understand the audio.''],
         \<lparr>analysis_result = None, user_location = Some (28, 77)\<rparr>, False)"
  using unintelligible_audio_stops_before_analysis
    [where ui = "\<lparr>geolocation = Some (28, 77), manual_city = [], find_location_clicked = False,
         selected_language = English_India, uploaded_file = Some ''RIFF'',
         analyze_clicked = True\<rparr>"
       and audio = "''RIFF''" and m = "[]"
       and w = "\<lparr>speech = \<lambda>a c. SrRaised (UnknownValueError []),
         llm = \<lambda>p. LlmNotJson ''never asked'',
         format_instructions = [],
         http = \<lambda>req. HttpJson (JObj []),
         sort_values = stable_sort,
         geocode = \<lambda>c. GeoNotFound\<rparr>"
       and ev = "\<lparr>GOOGLE_API_KEY = Some ''llm-key'', GOOGLE_MAPS_API_KEY = Some ''maps-key''\<rparr>"
       and s = "\<lparr>analysis_result = None, user_location = None\<rparr>"]
    unintelligible_audio_stops_before_analysis
    [where ui = "\<lparr>geolocation = Some (28, 77), manual_city = [], find_location_clicked = False,
         selected_language = English_India, uploaded_file = Some ''RIFF'',
         analyze_clicked = True\<rparr>"
       and audio = "''RIFF''" and m = "[]"
       and w = "\<lparr>speech = \<lambda>a c. SrRaised (UnknownValueError []),
         llm = \<lambda>p. LlmNotJson ''never asked'',
         format_instructions = [],
         http = \<lambda>req. HttpJson (JObj []),
         sort_values = stable_sort,
         geocode = \<lambda>c. GeoNotFound\<rparr>"
       and ev = "\<lparr>GOOGLE_API_KEY = Some ''llm-key'', GOOGLE_MAPS_API_KEY = Some ''maps-key''\<rparr>"
       and s = "\<lparr>analysis_result = None, user_location = Some (28, 77)\<rparr>"]
  by simp

text \<open>
  Claim C10. Whenever the text that \<open>transcribe_audio\<close> returns contains \<open>Error:\<close>, be it
  one of the two sentinels or a text the service recognised, no run of the script on that
  upload calls \<open>get_ai_triage_analysis\<close>, and a run in which the button was pressed ends
  the analysis part with the status \<open>Transcription Failed.\<close> and the text as the error
  shown.
\<close>

theorem error_substring_classified_as_failure:
  assumes "uploaded_file ui = Some audio"
    and "transcribe_audio (speech w) audio (language_map (selected_language ui)) = Return t"
    and "str_in ''Error:'' t"
  shows "\<not> list_ex is_Call_analyze (events (app ev w ui s))
     \<and> (analyze_clicked ui \<and> user_location s \<noteq> None \<longrightarrow>
          analysis_step w ui s =
            ([Status_update (''Analyzing in '' @ language_name (selected_language ui) @ ''...''),
              Status_update ''Transcribing audio...'',
              Call_transcribe audio (language_map (selected_language ui)),
              Status_update ''Transcription Failed.'',
              St_error t],
             s\<lparr>analysis_result := None\<rparr>, False))"
  using app_error_text_no_analyze [OF assms] analysis_step_failed [OF assms] by blast

theorem error_substring_classified_as_failure_witness:
  "\<not> list_ex is_Call_analyze (events (app
        \<lparr>GOOGLE_API_KEY = Some ''llm-key'', GOOGLE_MAPS_API_KEY = Some ''maps-key''\<rparr>
        \<lparr>speech = \<lambda>a c. SrText ''my monitor shows Error: 5 and my head hurts'',
         llm = \<lambda>p. LlmNotJson ''never asked'',
         format_instructions = [],
         http = \<lambda>req. HttpJson (JObj []),
         sort_values = stable_sort,
         geocode = \<lambda>c. GeoNotFound\<rparr>
        \<lparr>geolocation = Some (28, 77), manual_city = [], find_location_clicked = False,
         selected_language = English_India, uploaded_file = Some ''RIFF'',
         analyze_clicked = True\<rparr>
        \<lparr>analysis_result = None, user_location = None\<rparr>))
   \<and> analysis_step
        \<lparr>speech = \<lambda>a c. SrText ''my monitor shows Error: 5 and my head hurts'',
         llm = \<lambda>p. LlmNotJson ''never asked'',
         format_instructions = [],
         http = \<lambda>req. HttpJson (JObj []),
         sort_values = stable_sort,
         geocode = \<lambda>c. GeoNotFound\<rparr>
        \<lparr>geolocation = Some (28, 77), manual_city = [], find_location_clicked = False,
         selected_language = English_India, uploaded_file = Some ''RIFF'',
         analyze_clicked = True\<rparr>
        \<lparr>analysis_result = None, user_location = Some (28, 77)\<rparr>
      = ([Status_update ''Analyzing in English (India)...'',
          Status_update ''Transcribing audio...'',
          Call_transcribe ''RIFF'' ''en-IN'',
          Status_update ''Transcription Failed.'',
          St_error ''my monitor shows Error: 5 and my head hurts''],
         \<lparr>analysis_result = None, user_location = Some (28, 77)\<rparr>, False)"
  using error_substring_classified_as_failure
    [where ui = "\<lparr>geolocation = Some (28, 77), manual_city = [], find_location_clicked = False,
         selected_language = English_India, uploaded_file = Some ''RIFF'',
         analyze_clicked = True\<rparr>"
       and audio = "''RIFF''" and t = "''my monitor shows Error: 5 and my head hurts''"
       and w = "\<lparr>speech = \<lambda>a c. SrText ''my monitor shows Error: 5 and my head hurts'',
         llm = \<lambda>p. LlmNotJson ''never asked'',
         format_instructions = [],
         http = \<lambda>req. HttpJson (JObj []),
         sort_values = stable_sort,
         geocode = \<lambda>c. GeoNotFound\<rparr>"
       and ev = "\<lparr>GOOGLE_API_KEY = Some ''llm-key'', GOOGLE_MAPS_API_KEY = Some ''maps-key''\<rparr>"
       and s = "\<lparr>analysis_result = None, user_location = None\<rparr>"]
    error_substring_classified_as_failure
    [where ui = "\<lparr>geolocation = Some (28, 77), manual_city = [], find_location_clicked = False,
         selected_language = English_India, uploaded_file = Some ''RIFF'',
         analyze_clicked = True\<rparr>"
       and audio = "''RIFF''" and t = "''my monitor shows Error: 5 and my head hurts''"
       and w = "\<lparr>speech = \<lambda>a c. SrText ''my monitor shows Error: 5 and my head hurts'',
         llm = \<lambda>p. LlmNotJson ''never asked'',
         format_instructions = [],
         http = \<lambda>req. HttpJson (JObj []),
         sort_values = stable_sort,
         geocode = \<lambda>c. GeoNotFound\<rparr>"
       and ev = "\<lparr>GOOGLE_API_KEY = Some ''llm-key'', GOOGLE_MAPS_API_KEY = Some ''maps-key''\<rparr>"
       and s = "\<lparr>analysis_result = None, user_location = Some (28, 77)\<rparr>"]
  by (simp add: transcribe_audio_def)





end
